theory Spec2Isabelle
  imports Complex_Main "HOL-Library.Log_Nat" "HOL-Library.Sublist"
begin

section \<open>Python values used by the handlers\<close>

text \<open>
  A field of the JSON object returned by \<^verbatim>\<open>request.get_json()\<close>: the key is absent, present
  with JSON \<^verbatim>\<open>null\<close>, or present with a value of the column's type. The handlers are
  modelled on request bodies that are JSON objects whose non-null values have the type of
  the column they are stored in.
\<close>

datatype 'a jfield = Absent | Null | Val 'a

text \<open>\<^verbatim>\<open>field in data\<close>\<close>

definition present :: "'a jfield \<Rightarrow> bool" where
  "present f = (case f of Absent \<Rightarrow> False | Null \<Rightarrow> True | Val v \<Rightarrow> True)"

text \<open>\<^verbatim>\<open>data[field]\<close> for a key that is present, and \<^verbatim>\<open>data.get(field)\<close>\<close>

definition get :: "'a jfield \<Rightarrow> 'a option" where
  "get f = (case f of Absent \<Rightarrow> None | Null \<Rightarrow> None | Val v \<Rightarrow> Some v)"

text \<open>\<^verbatim>\<open>data.get(field, default)\<close>\<close>

definition get_default :: "'a jfield \<Rightarrow> 'a \<Rightarrow> 'a option" where
  "get_default f d = (case f of Absent \<Rightarrow> Some d | Null \<Rightarrow> None | Val v \<Rightarrow> Some v)"

text \<open>
  The values a handler puts into its response. \<open>PFloat q\<close> is a finite Python float (an
  IEEE binary64 number) whose exact value is the rational \<open>q\<close>, \<open>PInfinity\<close> and
  \<open>PMinusInfinity\<close> are the two infinite floats; \<open>PIso t\<close> is the \<^verbatim>\<open>isoformat()\<close> text
  of the timestamp \<open>t\<close>.
\<close>

datatype pyval =
    PNone
  | PBool bool
  | PInt int
  | PFloat rat
  | PInfinity
  | PMinusInfinity
  | PStr string
  | PIso int
  | PDict "(string \<times> pyval) list"

text \<open>
  A response is a status code with its JSON body. \<open>ServerError\<close> is the status 500 that
  every \<^verbatim>\<open>except Exception\<close> block returns; its body carries the text of the exception,
  which is not modelled.
\<close>

datatype response = Response nat pyval | ServerError

subsection \<open>Floats\<close>

text \<open>
  \<^verbatim>\<open>float(x)\<close> of an exact number, and the result of one float operation whose exact
  result is \<open>x\<close>: the nearest binary64 number, ties to the even significand. Every number
  the handlers convert is far below \<open>2 ^ 1024\<close>, so overflow to infinity is left out.
\<close>

definition round_half_even :: "rat \<Rightarrow> int" where
  "round_half_even q =
     (let f = \<lfloor>q\<rfloor>; d = q - of_int f
      in if d < 1 / 2 then f else if 1 / 2 < d then f + 1 else if even f then f else f + 1)"

definition binary_exponent :: "rat \<Rightarrow> int" where
  "binary_exponent q =
     (let (n, d) = quotient_of \<bar>q\<bar>; k = bitlen n - bitlen d
      in if (2::rat) powi k \<le> \<bar>q\<bar> then k else k - 1)"

definition py_float :: "rat \<Rightarrow> rat" where
  "py_float q =
     (if q = 0 then 0
      else let e = max (binary_exponent q) (- 1022); u = (2::rat) powi (e - 52)
           in of_int (round_half_even (q / u)) * u)"

text \<open>\<^verbatim>\<open>int(f)\<close> of a float: truncation toward zero.\<close>

definition py_int :: "rat \<Rightarrow> int" where
  "py_int f = (if 0 \<le> f then \<lfloor>f\<rfloor> else \<lceil>f\<rceil>)"

text \<open>
  The Tier 1 model keeps the value of a \<^verbatim>\<open>Numeric(p, s)\<close> column as the integer number of
  units of \<open>10 ^ -s\<close> (hundredths for \<^verbatim>\<open>Numeric(15, 2)\<close>, ten-thousandths for
  \<^verbatim>\<open>Numeric(10, 4)\<close>), and \<open>scale\<close> below is \<open>10 ^ s\<close>.
  \<^verbatim>\<open>float(self.x) if self.x else 0.0\<close> on such a column, \<open>None\<close> being SQL NULL:
\<close>

definition float_or_zero :: "int \<Rightarrow> int option \<Rightarrow> pyval" where
  "float_or_zero scale x =
     (case x of
        None \<Rightarrow> PFloat 0
      | Some n \<Rightarrow> if n = 0 then PFloat 0 else PFloat (py_float (of_int n / of_int scale)))"

subsection \<open>Numbers of a request and numeric columns on SQLite\<close>

text \<open>
  A float that may be infinite, as a value can be that comes from a request.
  \<open>float_of_rat q\<close> is the float nearest to \<open>q\<close>: rounding that reaches \<open>2 ^ 1024\<close>,
  that is a binary exponent of 1024 or more, gives an infinity. \<open>float_value\<close> is the
  float as a value of a response.
\<close>

datatype float64 = Finite rat | PlusInfinity | MinusInfinity

definition float_of_rat :: "rat \<Rightarrow> float64" where
  "float_of_rat q =
     (let f = py_float q
      in if f \<noteq> 0 \<and> 1024 \<le> binary_exponent f
         then (if 0 < q then PlusInfinity else MinusInfinity)
         else Finite f)"

definition float_value :: "float64 \<Rightarrow> pyval" where
  "float_value x =
     (case x of Finite f \<Rightarrow> PFloat f | PlusInfinity \<Rightarrow> PInfinity
      | MinusInfinity \<Rightarrow> PMinusInfinity)"

text \<open>
  A JSON number as \<^verbatim>\<open>request.get_json()\<close> reads it: a number written without fraction
  and exponent is the Python int \<open>n\<close>, any other number, of exact value \<open>v\<close>, is the
  float nearest to \<open>v\<close>.
\<close>

datatype json_number = JInt int | JReal rat

definition json_value :: "json_number \<Rightarrow> rat" where
  "json_value a = (case a of JInt n \<Rightarrow> of_int n | JReal v \<Rightarrow> v)"

text \<open>
  The application runs on SQLite (\<^verbatim>\<open>sqlite:///...\<close> in \<^verbatim>\<open>main.py\<close>), which has no decimal
  type: SQLAlchemy binds a value of a \<^verbatim>\<open>Numeric\<close> column as \<^verbatim>\<open>float(value)\<close> and the
  column holds that float. \<open>to_float\<close> is the float bound for a JSON number; \<open>None\<close> is
  the OverflowError that \<^verbatim>\<open>float\<close> raises on an int beyond the largest float.
\<close>

definition to_float :: "json_number \<Rightarrow> float64 option" where
  "to_float a =
     (case a of
        JReal v \<Rightarrow> Some (float_of_rat v)
      | JInt n \<Rightarrow>
          (case float_of_rat (of_int n) of
             Finite f \<Rightarrow> Some (Finite f)
           | PlusInfinity \<Rightarrow> None
           | MinusInfinity \<Rightarrow> None))"

text \<open>
  When a row is loaded, the float of a \<^verbatim>\<open>Numeric(p, s)\<close> column becomes
  \<^verbatim>\<open>Decimal("%.sf" % value)\<close>: the decimal with \<open>s\<close> places nearest to the float, ties to
  even, \<open>scale\<close> below being \<open>10 ^ s\<close>. \<^verbatim>\<open>float(self.x) if self.x else 0.0\<close> on the
  loaded attribute, \<open>None\<close> being SQL NULL:
\<close>

definition numeric_to_float :: "int \<Rightarrow> float64 option \<Rightarrow> pyval" where
  "numeric_to_float scale x =
     (case x of
        None \<Rightarrow> PFloat 0
      | Some PlusInfinity \<Rightarrow> PInfinity
      | Some MinusInfinity \<Rightarrow> PMinusInfinity
      | Some (Finite f) \<Rightarrow>
          (let c = round_half_even (f * of_int scale)
           in if c = 0 then PFloat 0
              else float_value (float_of_rat (of_int c / of_int scale))))"

subsection \<open>Strings and times\<close>

text \<open>\<^verbatim>\<open>str.upper()\<close> on ASCII text.\<close>

definition char_upper :: "char \<Rightarrow> char" where
  "char_upper c =
     (let n = (of_char c :: nat) in if 97 \<le> n \<and> n \<le> 122 then char_of (n - 32) else c)"

definition upper :: "string \<Rightarrow> string" where
  "upper s = map char_upper s"

text \<open>
  A \<^verbatim>\<open>datetime\<close> is the number of microseconds since \<^verbatim>\<open>datetime.min\<close>
  (0001-01-01T00:00:00); \<^verbatim>\<open>datetime.max\<close> is the last microsecond of day 3652059.
\<close>

definition day_us :: int where
  "day_us = 86400000000"

definition datetime_max :: int where
  "datetime_max = 3652059 * day_us - 1"

text \<open>
  \<^verbatim>\<open>now - timedelta(days=days)\<close>: \<^verbatim>\<open>timedelta\<close> raises OverflowError beyond 999999999
  days, and so does the subtraction when the result leaves the range of \<^verbatim>\<open>datetime\<close>.
\<close>

definition minus_days :: "int \<Rightarrow> int \<Rightarrow> int option" where
  "minus_days now days =
     (if days < - 999999999 \<or> 999999999 < days then None
      else let t = now - days * day_us
           in if t < 0 \<or> datetime_max < t then None else Some t)"

text \<open>
  \<^verbatim>\<open>int((completed_at - initiated_at).total_seconds() * 1000)\<close>, the difference given in
  microseconds: \<^verbatim>\<open>total_seconds()\<close> is the float nearest to the quotient by \<open>10 ^ 6\<close>,
  the product is rounded again, and \<^verbatim>\<open>int\<close> truncates.
\<close>

definition response_time_ms :: "int \<Rightarrow> int" where
  "response_time_ms delta_us = py_int (py_float (py_float (of_int delta_us / 1000000) * 1000))"

text \<open>
  The loop over \<^verbatim>\<open>required_fields\<close>: the first name, in the order of the list, whose key
  is not in the request.
\<close>

fun first_missing :: "(string \<times> bool) list \<Rightarrow> string option" where
  "first_missing [] = None"
| "first_missing ((name, is_present) # rest) =
     (if is_present then first_missing rest else Some name)"

text \<open>
  \<^verbatim>\<open>if arg: query = query.filter(...)\<close> for an optional query-string argument: the filter
  is applied only when the argument is given and is not the empty string.
\<close>

definition filter_arg :: "string option \<Rightarrow> (string \<Rightarrow> 'a \<Rightarrow> bool) \<Rightarrow> 'a list \<Rightarrow> 'a list" where
  "filter_arg a p q = (case a of None \<Rightarrow> q | Some s \<Rightarrow> if s = [] then q else filter (p s) q)"

text \<open>
  \<^verbatim>\<open>(successful / total * 100) if total > 0 else 0\<close> on two counts: a float division, a
  float product, and the integer 0 when there is no transaction.
\<close>

definition success_rate :: "nat \<Rightarrow> nat \<Rightarrow> pyval" where
  "success_rate successful_transactions total_transactions =
     (if total_transactions > 0
      then PFloat (py_float
             (py_float (of_nat successful_transactions / of_nat total_transactions) * 100))
      else PInt 0)"

section \<open>Tier 1 platforms: \<^verbatim>\<open>Tier1Transaction\<close> and its routes\<close>

text \<open>
  The columns of \<^verbatim>\<open>Tier1Transaction\<close> that the handlers below read or compute. A column
  declared \<^verbatim>\<open>nullable=False\<close> holds a value, every other column an option. Columns that
  are only copied from the request into the row and back into \<^verbatim>\<open>to_dict\<close> (description,
  payment_channel, the customer columns, mobile_network, bank_code,
  platform_request_data, ip_address, user_agent) are left out. The amount is in
  hundredths and a fee in ten-thousandths, for values within the 15 and 10 digits of
  their columns, which are read back from the database as they were given.
\<close>

record tier1_transaction =
  t1_id :: int
  t1_transaction_id :: string
  t1_platform :: string
  t1_platform_integration_id :: string
  t1_external_transaction_id :: "string option"
  t1_reference :: string
  t1_amount :: int
  t1_currency :: string
  t1_payment_method :: string
  t1_platform_response_data :: "string option"
  t1_platform_callback_data :: "string option"
  t1_status :: "string option"
  t1_platform_status :: "string option"
  t1_failure_reason :: "string option"
  t1_initiated_at :: "int option"
  t1_processed_at :: "int option"
  t1_completed_at :: "int option"
  t1_response_time :: "int option"
  t1_platform_fee :: "int option"
  t1_gateway_fee :: "int option"
  t1_total_fees :: "int option"
  t1_net_amount :: "int option"
  t1_country_code :: string
  t1_created_at :: "int option"
  t1_updated_at :: "int option"

definition opt_str :: "string option \<Rightarrow> pyval" where
  "opt_str x = (case x of None \<Rightarrow> PNone | Some s \<Rightarrow> PStr s)"

definition opt_int :: "int option \<Rightarrow> pyval" where
  "opt_int x = (case x of None \<Rightarrow> PNone | Some n \<Rightarrow> PInt n)"

text \<open>\<^verbatim>\<open>self.x.isoformat() if self.x else None\<close>\<close>

definition opt_iso :: "int option \<Rightarrow> pyval" where
  "opt_iso x = (case x of None \<Rightarrow> PNone | Some t \<Rightarrow> PIso t)"

text \<open>\<^verbatim>\<open>Tier1Transaction.to_dict\<close>, on the columns of the record.\<close>

definition tier1_to_dict :: "tier1_transaction \<Rightarrow> pyval" where
  "tier1_to_dict self = PDict
     [(''id'', PInt (t1_id self)),
      (''transaction_id'', PStr (t1_transaction_id self)),
      (''platform'', PStr (t1_platform self)),
      (''platform_integration_id'', PStr (t1_platform_integration_id self)),
      (''external_transaction_id'', opt_str (t1_external_transaction_id self)),
      (''reference'', PStr (t1_reference self)),
      (''amount'', float_or_zero 100 (Some (t1_amount self))),
      (''currency'', PStr (t1_currency self)),
      (''payment_method'', PStr (t1_payment_method self)),
      (''status'', opt_str (t1_status self)),
      (''platform_status'', opt_str (t1_platform_status self)),
      (''failure_reason'', opt_str (t1_failure_reason self)),
      (''country_code'', PStr (t1_country_code self)),
      (''platform_fee'', float_or_zero 10000 (t1_platform_fee self)),
      (''gateway_fee'', float_or_zero 10000 (t1_gateway_fee self)),
      (''total_fees'', float_or_zero 10000 (t1_total_fees self)),
      (''net_amount'', float_or_zero 100 (t1_net_amount self)),
      (''response_time'', opt_int (t1_response_time self)),
      (''initiated_at'', opt_iso (t1_initiated_at self)),
      (''processed_at'', opt_iso (t1_processed_at self)),
      (''completed_at'', opt_iso (t1_completed_at self)),
      (''created_at'', opt_iso (t1_created_at self))]"

text \<open>
  The body of \<^verbatim>\<open>PUT /transactions/<transaction_id>/status\<close>. The two
  \<^verbatim>\<open>platform_*_data\<close> keys hold any JSON value; the field is the text
  \<^verbatim>\<open>json.dumps\<close> gives for it.
\<close>

record status_update =
  su_status :: "string jfield"
  su_platform_status :: "string jfield"
  su_external_transaction_id :: "string jfield"
  su_failure_reason :: "string jfield"
  su_platform_fee :: "int jfield"
  su_gateway_fee :: "int jfield"
  su_total_fees :: "int jfield"
  su_net_amount :: "int jfield"
  su_platform_response_data :: "string option"
  su_platform_callback_data :: "string option"

text \<open>
  The block under \<^verbatim>\<open>if 'status' in data\<close>, with \<open>s\<close> the value of
  \<^verbatim>\<open>data['status']\<close> and \<open>now\<close> the reading of \<^verbatim>\<open>datetime.utcnow()\<close> in the branch
  taken. A \<^verbatim>\<open>datetime\<close> is always true, so \<^verbatim>\<open>not transaction.processed_at\<close> holds
  exactly when the column is NULL.
\<close>

definition set_status :: "tier1_transaction \<Rightarrow> string option \<Rightarrow> int \<Rightarrow> tier1_transaction" where
  "set_status transaction s now =
     (let tr = transaction\<lparr>t1_status := s\<rparr>
      in if s = Some ''Processing'' \<and> t1_processed_at tr = None
         then tr\<lparr>t1_processed_at := Some now\<rparr>
         else if s \<in> {Some ''Success'', Some ''Failed'', Some ''Cancelled''}
                 \<and> t1_completed_at tr = None
         then (let tr2 = tr\<lparr>t1_completed_at := Some now\<rparr>
               in case t1_initiated_at tr2 of
                    None \<Rightarrow> tr2
                  | Some i \<Rightarrow> tr2\<lparr>t1_response_time := Some (response_time_ms (now - i))\<rparr>)
         else tr)"

text \<open>\<^verbatim>\<open>if field in data: setattr(transaction, field, data[field])\<close>, for one field.\<close>

definition set_field :: "'a jfield \<Rightarrow> 'a option \<Rightarrow> 'a option" where
  "set_field f old = (case f of Absent \<Rightarrow> old | Null \<Rightarrow> None | Val v \<Rightarrow> Some v)"

definition set_dumped :: "string option \<Rightarrow> string option \<Rightarrow> string option" where
  "set_dumped f old = (case f of None \<Rightarrow> old | Some text \<Rightarrow> Some text)"

text \<open>
  The loop over \<^verbatim>\<open>updatable_fields\<close>, the two dumped JSON columns and
  \<^verbatim>\<open>updated_at\<close>, which takes a reading \<open>now2\<close> of the clock of its own.
\<close>

definition update_other_fields ::
  "status_update \<Rightarrow> int \<Rightarrow> tier1_transaction \<Rightarrow> tier1_transaction" where
  "update_other_fields data now2 tr =
     tr\<lparr>t1_platform_status := set_field (su_platform_status data) (t1_platform_status tr),
        t1_external_transaction_id :=
          set_field (su_external_transaction_id data) (t1_external_transaction_id tr),
        t1_failure_reason := set_field (su_failure_reason data) (t1_failure_reason tr),
        t1_platform_fee := set_field (su_platform_fee data) (t1_platform_fee tr),
        t1_gateway_fee := set_field (su_gateway_fee data) (t1_gateway_fee tr),
        t1_total_fees := set_field (su_total_fees data) (t1_total_fees tr),
        t1_net_amount := set_field (su_net_amount data) (t1_net_amount tr),
        t1_platform_response_data :=
          set_dumped (su_platform_response_data data) (t1_platform_response_data tr),
        t1_platform_callback_data :=
          set_dumped (su_platform_callback_data data) (t1_platform_callback_data tr),
        t1_updated_at := Some now2\<rparr>"

text \<open>
  Everything \<^verbatim>\<open>update_transaction_status\<close> assigns to the row it found: the status
  block when the body has a status key, then the other fields.
\<close>

definition apply_status_update ::
  "tier1_transaction \<Rightarrow> status_update \<Rightarrow> int \<Rightarrow> int \<Rightarrow> tier1_transaction" where
  "apply_status_update transaction data now now2 =
     update_other_fields data now2
       (if present (su_status data)
        then set_status transaction (get (su_status data)) now
        else transaction)"

section \<open>The payment framework: \<^verbatim>\<open>PaymentTransaction\<close>\<close>

text \<open>
  The columns of \<^verbatim>\<open>PaymentTransaction\<close> the handlers read or compute, with the same
  conventions and the same columns left out as for \<^verbatim>\<open>Tier1Transaction\<close> (and
  gateway_response, callback_data, transaction_metadata, updated_at). A \<^verbatim>\<open>Numeric\<close>
  column holds the float that SQLite holds.
\<close>

record payment_transaction =
  pt_id :: int
  pt_transaction_id :: string
  pt_gateway_id :: string
  pt_integration_id :: string
  pt_external_transaction_id :: "string option"
  pt_reference :: string
  pt_amount :: float64
  pt_currency :: string
  pt_payment_method :: string
  pt_status :: "string option"
  pt_gateway_status :: "string option"
  pt_failure_reason :: "string option"
  pt_initiated_at :: "int option"
  pt_processed_at :: "int option"
  pt_completed_at :: "int option"
  pt_response_time :: "int option"
  pt_gateway_fee :: "float64 option"
  pt_platform_fee :: "float64 option"
  pt_total_fees :: "float64 option"
  pt_net_amount :: "float64 option"
  pt_country_code :: string
  pt_created_at :: "int option"

text \<open>\<^verbatim>\<open>PaymentTransaction.to_dict\<close>, on the columns of the record.\<close>

definition to_dict :: "payment_transaction \<Rightarrow> pyval" where
  "to_dict self = PDict
     [(''id'', PInt (pt_id self)),
      (''transaction_id'', PStr (pt_transaction_id self)),
      (''gateway_id'', PStr (pt_gateway_id self)),
      (''integration_id'', PStr (pt_integration_id self)),
      (''external_transaction_id'', opt_str (pt_external_transaction_id self)),
      (''reference'', PStr (pt_reference self)),
      (''amount'', numeric_to_float 100 (Some (pt_amount self))),
      (''currency'', PStr (pt_currency self)),
      (''payment_method'', PStr (pt_payment_method self)),
      (''status'', opt_str (pt_status self)),
      (''gateway_status'', opt_str (pt_gateway_status self)),
      (''failure_reason'', opt_str (pt_failure_reason self)),
      (''country_code'', PStr (pt_country_code self)),
      (''gateway_fee'', numeric_to_float 10000 (pt_gateway_fee self)),
      (''platform_fee'', numeric_to_float 10000 (pt_platform_fee self)),
      (''total_fees'', numeric_to_float 10000 (pt_total_fees self)),
      (''net_amount'', numeric_to_float 100 (pt_net_amount self)),
      (''response_time'', opt_int (pt_response_time self)),
      (''initiated_at'', opt_iso (pt_initiated_at self)),
      (''processed_at'', opt_iso (pt_processed_at self)),
      (''completed_at'', opt_iso (pt_completed_at self)),
      (''created_at'', opt_iso (pt_created_at self))]"

section \<open>The database\<close>

text \<open>
  The tables the transaction routes touch. Of a gateway and an integration only the
  columns \<^verbatim>\<open>create_transaction\<close> reads are kept. Each transaction table has the counter
  that gives the next value of its autoincremented primary key \<^verbatim>\<open>id\<close>. A handler maps
  the database to its response and the database after \<^verbatim>\<open>commit\<close> or \<^verbatim>\<open>rollback\<close>.
\<close>

record gateway =
  gw_gateway_id :: string
  gw_country_code :: string

record integration =
  in_integration_id :: string
  in_gateway_id :: string

record db =
  gateways :: "gateway list"
  integrations :: "integration list"
  payment_transactions :: "payment_transaction list"
  payment_transaction_seq :: int
  tier1_transactions :: "tier1_transaction list"
  tier1_transaction_seq :: int

section \<open>Tier 1 routes\<close>

text \<open>The body of \<^verbatim>\<open>POST /transactions\<close> of the Tier 1 blueprint.\<close>

record tier1_create_request =
  tc_platform :: "string jfield"
  tc_platform_integration_id :: "string jfield"
  tc_external_transaction_id :: "string jfield"
  tc_reference :: "string jfield"
  tc_amount :: "int jfield"
  tc_currency :: "string jfield"
  tc_payment_method :: "string jfield"
  tc_country_code :: "string jfield"

text \<open>
  \<^verbatim>\<open>create_tier1_transaction\<close>. \<open>uuid16\<close> and \<open>uuid8\<close> are the hexadecimal prefixes of
  the two \<^verbatim>\<open>uuid.uuid4()\<close> calls, and the three times are the readings of
  \<^verbatim>\<open>datetime.utcnow\<close> for the column defaults. The constructor is given no status, so
  the column default \<^verbatim>\<open>'Pending'\<close> applies, as \<^verbatim>\<open>0.0000\<close> does for the three fees.
  \<^verbatim>\<open>commit\<close> raises, and the handler rolls back and answers 500, when a
  \<^verbatim>\<open>nullable=False\<close> column would be NULL or the unique \<^verbatim>\<open>transaction_id\<close> is taken.
\<close>

definition create_tier1_transaction ::
  "db \<Rightarrow> tier1_create_request \<Rightarrow> string \<Rightarrow> string \<Rightarrow> int \<Rightarrow> int \<Rightarrow> int \<Rightarrow> response \<times> db" where
  "create_tier1_transaction d data uuid16 uuid8 t_initiated t_created t_updated =
     (case first_missing
             [(''platform'', present (tc_platform data)),
              (''platform_integration_id'', present (tc_platform_integration_id data)),
              (''amount'', present (tc_amount data)),
              (''currency'', present (tc_currency data)),
              (''payment_method'', present (tc_payment_method data)),
              (''country_code'', present (tc_country_code data))] of
        Some field \<Rightarrow> (Response 400 (PDict [(''error'', PStr (field @ '' is required''))]), d)
      | None \<Rightarrow>
         (case (get (tc_platform data), get (tc_platform_integration_id data),
                get_default (tc_reference data) (''ref_'' @ uuid8), get (tc_amount data),
                get (tc_currency data), get (tc_payment_method data),
                get (tc_country_code data)) of
            (Some platform, Some integration_id, Some reference, Some amount,
             Some currency, Some payment_method, Some country_code) \<Rightarrow>
              if ''tier1_'' @ uuid16 \<in> set (map t1_transaction_id (tier1_transactions d))
              then (ServerError, d)
              else
                (let transaction =
                   \<lparr>t1_id = tier1_transaction_seq d,
                    t1_transaction_id = ''tier1_'' @ uuid16,
                    t1_platform = platform,
                    t1_platform_integration_id = integration_id,
                    t1_external_transaction_id = get (tc_external_transaction_id data),
                    t1_reference = reference,
                    t1_amount = amount,
                    t1_currency = currency,
                    t1_payment_method = payment_method,
                    t1_platform_response_data = None,
                    t1_platform_callback_data = None,
                    t1_status = Some ''Pending'',
                    t1_platform_status = None,
                    t1_failure_reason = None,
                    t1_initiated_at = Some t_initiated,
                    t1_processed_at = None,
                    t1_completed_at = None,
                    t1_response_time = None,
                    t1_platform_fee = Some 0,
                    t1_gateway_fee = Some 0,
                    t1_total_fees = Some 0,
                    t1_net_amount = None,
                    t1_country_code = country_code,
                    t1_created_at = Some t_created,
                    t1_updated_at = Some t_updated\<rparr>
                 in (Response 201
                       (PDict [(''message'', PStr ''Tier 1 transaction created successfully''),
                               (''transaction'', tier1_to_dict transaction)]),
                     d\<lparr>tier1_transactions := tier1_transactions d @ [transaction],
                       tier1_transaction_seq := tier1_transaction_seq d + 1\<rparr>))
          | _ \<Rightarrow> (ServerError, d)))"

text \<open>\<^verbatim>\<open>get_tier1_transaction\<close>\<close>

definition get_tier1_transaction :: "db \<Rightarrow> string \<Rightarrow> response \<times> db" where
  "get_tier1_transaction d transaction_id =
     (case find (\<lambda>t. t1_transaction_id t = transaction_id) (tier1_transactions d) of
        None \<Rightarrow> (Response 404 (PDict [(''error'', PStr ''Transaction not found'')]), d)
      | Some transaction \<Rightarrow> (Response 200 (tier1_to_dict transaction), d))"

text \<open>
  \<^verbatim>\<open>update_transaction_status\<close>: the row found by \<^verbatim>\<open>transaction_id\<close> is changed and the
  commit writes it back under its primary key.
\<close>

definition update_transaction_status ::
  "db \<Rightarrow> string \<Rightarrow> status_update \<Rightarrow> int \<Rightarrow> int \<Rightarrow> response \<times> db" where
  "update_transaction_status d transaction_id data now now2 =
     (case find (\<lambda>t. t1_transaction_id t = transaction_id) (tier1_transactions d) of
        None \<Rightarrow> (Response 404 (PDict [(''error'', PStr ''Transaction not found'')]), d)
      | Some transaction \<Rightarrow>
          (let updated = apply_status_update transaction data now now2
           in (Response 200
                 (PDict [(''message'', PStr ''Transaction status updated successfully''),
                         (''transaction'', tier1_to_dict updated)]),
               d\<lparr>tier1_transactions :=
                    map (\<lambda>t. if t1_id t = t1_id transaction then updated else t)
                      (tier1_transactions d)\<rparr>)))"

text \<open>\<^verbatim>\<open>Tier1Transaction.created_at >= start_date\<close>; a NULL never compares true in SQL.\<close>

definition since :: "int \<Rightarrow> int option \<Rightarrow> bool" where
  "since start_date created_at = (case created_at of None \<Rightarrow> False | Some c \<Rightarrow> start_date \<le> c)"

text \<open>
  The metrics \<^verbatim>\<open>get_analytics_overview\<close> of the Tier 1 blueprint computes from one list
  of transactions, for each platform and overall. Of the keys of the source the counts
  and the success rate are kept; total_volume and average_transaction_value are sums of
  floats and are left out.
\<close>

definition tier1_metrics :: "tier1_transaction list \<Rightarrow> pyval" where
  "tier1_metrics transactions =
     (let total_transactions = length transactions;
          successful_transactions =
            length (filter (\<lambda>t. t1_status t = Some ''Success'') transactions)
      in PDict
           [(''total_transactions'', PInt (int total_transactions)),
            (''successful_transactions'', PInt (int successful_transactions)),
            (''failed_transactions'', PInt (int total_transactions - int successful_transactions)),
            (''success_rate'', success_rate successful_transactions total_transactions)])"

definition platforms :: "string list" where
  "platforms = [''mpesa'', ''mtn_momo'', ''paystack'', ''flutterwave'', ''hubtel'']"

text \<open>
  \<^verbatim>\<open>get_analytics_overview\<close> of the Tier 1 blueprint, with \<open>days\<close> the parsed query
  argument and \<open>now\<close> the clock. The keys period and top_performing_platform are left
  out of the body.
\<close>

definition tier1_get_analytics_overview :: "db \<Rightarrow> int \<Rightarrow> int \<Rightarrow> response \<times> db" where
  "tier1_get_analytics_overview d days now =
     (case minus_days now days of
        None \<Rightarrow> (ServerError, d)
      | Some start_date \<Rightarrow>
          (Response 200
             (PDict
                [(''overall_metrics'',
                    tier1_metrics
                      (filter (\<lambda>t. since start_date (t1_created_at t)) (tier1_transactions d))),
                 (''platform_analytics'',
                    PDict (map (\<lambda>platform.
                                  (platform,
                                   tier1_metrics
                                     (filter (\<lambda>t. t1_platform t = platform
                                                   \<and> since start_date (t1_created_at t))
                                        (tier1_transactions d))))
                             platforms))]),
           d))"

section \<open>Payment framework routes\<close>

text \<open>The body of \<^verbatim>\<open>POST /transactions\<close> of the payment framework blueprint.\<close>

record create_request =
  cr_integration_id :: "string jfield"
  cr_amount :: "json_number jfield"
  cr_currency :: "string jfield"
  cr_payment_method :: "string jfield"
  cr_reference :: "string jfield"
  cr_country_code :: "string jfield"

text \<open>
  \<^verbatim>\<open>create_transaction\<close>. \<open>uuid12\<close> is the prefix of \<^verbatim>\<open>uuid.uuid4().hex\<close>, the two
  times are the readings of the clock for the defaults of initiated_at and created_at.
  \<^verbatim>\<open>filter_by(integration_id=None)\<close> finds nothing, \<^verbatim>\<open>None.upper()\<close> raises, and so does
  \<^verbatim>\<open>integration.gateway.country_code\<close> without a gateway row; \<^verbatim>\<open>commit\<close> raises as for
  the Tier 1 table, and when the amount cannot be bound as a float. Every exception ends
  in \<^verbatim>\<open>rollback\<close> and status 500. The amount of the row is the float the column holds.
\<close>

definition create_transaction ::
  "db \<Rightarrow> create_request \<Rightarrow> string \<Rightarrow> int \<Rightarrow> int \<Rightarrow> response \<times> db" where
  "create_transaction d data uuid12 t_initiated t_created =
     (case first_missing
             [(''integration_id'', present (cr_integration_id data)),
              (''amount'', present (cr_amount data)),
              (''currency'', present (cr_currency data)),
              (''payment_method'', present (cr_payment_method data)),
              (''reference'', present (cr_reference data))] of
        Some field \<Rightarrow>
          (Response 400
             (PDict [(''success'', PBool False),
                     (''error'', PStr (''Missing required field: '' @ field))]), d)
      | None \<Rightarrow>
         (case find (\<lambda>i. Val (in_integration_id i) = cr_integration_id data) (integrations d) of
            None \<Rightarrow>
              (Response 404
                 (PDict [(''success'', PBool False), (''error'', PStr ''Integration not found'')]),
               d)
          | Some integration \<Rightarrow>
             (case (get (cr_reference data), Option.bind (get (cr_amount data)) to_float,
                    map_option upper (get (cr_currency data)), get (cr_payment_method data),
                    find (\<lambda>g. gw_gateway_id g = in_gateway_id integration) (gateways d)) of
                (Some reference, Some amount, Some currency, Some payment_method, Some gw) \<Rightarrow>
                  (case get_default (cr_country_code data) (gw_country_code gw) of
                     None \<Rightarrow> (ServerError, d)
                   | Some country_code \<Rightarrow>
                      if ''txn_'' @ in_gateway_id integration @ ''_'' @ uuid12
                           \<in> set (map pt_transaction_id (payment_transactions d))
                      then (ServerError, d)
                      else
                        (let transaction =
                           \<lparr>pt_id = payment_transaction_seq d,
                            pt_transaction_id =
                              ''txn_'' @ in_gateway_id integration @ ''_'' @ uuid12,
                            pt_gateway_id = in_gateway_id integration,
                            pt_integration_id = in_integration_id integration,
                            pt_external_transaction_id = None,
                            pt_reference = reference,
                            pt_amount = amount,
                            pt_currency = currency,
                            pt_payment_method = payment_method,
                            pt_status = Some ''Pending'',
                            pt_gateway_status = None,
                            pt_failure_reason = None,
                            pt_initiated_at = Some t_initiated,
                            pt_processed_at = None,
                            pt_completed_at = None,
                            pt_response_time = None,
                            pt_gateway_fee = Some (Finite 0),
                            pt_platform_fee = Some (Finite 0),
                            pt_total_fees = Some (Finite 0),
                            pt_net_amount = None,
                            pt_country_code = country_code,
                            pt_created_at = Some t_created\<rparr>
                         in (Response 201
                               (PDict [(''success'', PBool True),
                                       (''message'', PStr ''Transaction created successfully''),
                                       (''data'', to_dict transaction)]),
                             d\<lparr>payment_transactions := payment_transactions d @ [transaction],
                               payment_transaction_seq := payment_transaction_seq d + 1\<rparr>)))
              | _ \<Rightarrow> (ServerError, d))))"

text \<open>
  The base query of \<^verbatim>\<open>get_analytics_overview\<close>: the transactions created since
  \<open>start_date\<close>, narrowed by the country code in upper case and by the gateway id when
  these arguments are given.
\<close>

definition analytics_query ::
  "db \<Rightarrow> int \<Rightarrow> string option \<Rightarrow> string option \<Rightarrow> payment_transaction list" where
  "analytics_query d start_date country_code gateway_id =
     filter_arg gateway_id (\<lambda>g t. pt_gateway_id t = g)
       (filter_arg country_code (\<lambda>c t. pt_country_code t = upper c)
          (filter (\<lambda>t. since start_date (pt_created_at t)) (payment_transactions d)))"

text \<open>
  \<^verbatim>\<open>get_analytics_overview\<close> of the payment framework blueprint. \<open>days\<close>,
  \<open>country_code\<close> and \<open>gateway_id\<close> are the query arguments, \<open>now\<close> the clock. Of the
  body the transactions block is kept. The volume block, which is the sum that the
  database engine computes over the floats of the amount column, the breakdowns by
  payment method and country, the gateway counts and the period are left out.
\<close>

definition get_analytics_overview ::
  "db \<Rightarrow> int \<Rightarrow> string option \<Rightarrow> string option \<Rightarrow> int \<Rightarrow> response \<times> db" where
  "get_analytics_overview d days country_code gateway_id now =
     (case minus_days now days of
        None \<Rightarrow> (ServerError, d)
      | Some start_date \<Rightarrow>
          (let query = analytics_query d start_date country_code gateway_id;
               total_transactions = length query;
               successful_transactions =
                 length (filter (\<lambda>t. pt_status t = Some ''Success'') query);
               failed_transactions = length (filter (\<lambda>t. pt_status t = Some ''Failed'') query);
               pending_transactions =
                 length (filter (\<lambda>t. pt_status t = Some ''Pending'') query)
           in (Response 200
                 (PDict
                    [(''success'', PBool True),
                     (''data'', PDict
                        [(''transactions'', PDict
                            [(''total'', PInt (int total_transactions)),
                             (''successful'', PInt (int successful_transactions)),
                             (''failed'', PInt (int failed_transactions)),
                             (''pending'', PInt (int pending_transactions)),
                             (''success_rate'',
                                success_rate successful_transactions total_transactions)])])]),
               d)))"

section \<open>The routes as operations on the database\<close>

text \<open>
  One constructor for each modelled route, with the inputs the handler takes from the
  request and from its environment (clock, uuid). These are the routes of the two
  blueprints that write a transaction table, the two overviews and the lookup by id.
  The two routes that list transactions (GET /transactions of either blueprint) only
  build and run SELECT queries, and the routes for gateways and integrations write
  other tables; they are not modelled.
\<close>

datatype operation =
    CreateTransaction create_request string int int
  | GetAnalyticsOverview int "string option" "string option" int
  | CreateTier1Transaction tier1_create_request string string int int int
  | GetTier1Transaction string
  | UpdateTransactionStatus string status_update int int
  | Tier1GetAnalyticsOverview int int

fun handle :: "db \<Rightarrow> operation \<Rightarrow> response \<times> db" where
  "handle d (CreateTransaction data uuid12 t_initiated t_created) =
     create_transaction d data uuid12 t_initiated t_created"
| "handle d (GetAnalyticsOverview days country_code gateway_id now) =
     get_analytics_overview d days country_code gateway_id now"
| "handle d (CreateTier1Transaction data uuid16 uuid8 t_initiated t_created t_updated) =
     create_tier1_transaction d data uuid16 uuid8 t_initiated t_created t_updated"
| "handle d (GetTier1Transaction transaction_id) = get_tier1_transaction d transaction_id"
| "handle d (UpdateTransactionStatus transaction_id data now now2) =
     update_transaction_status d transaction_id data now now2"
| "handle d (Tier1GetAnalyticsOverview days now) = tier1_get_analytics_overview d days now"

text \<open>The database after a sequence of requests, served one after the other.\<close>

fun run :: "db \<Rightarrow> operation list \<Rightarrow> db" where
  "run d [] = d"
| "run d (operation # rest) = run (snd (handle d operation)) rest"

section \<open>Notions used to state the properties\<close>



text \<open>
  The status code and the body of a response, and the value under a key of a dictionary.
\<close>

definition status_code :: "response \<Rightarrow> nat" where
  "status_code r = (case r of Response code b \<Rightarrow> code | ServerError \<Rightarrow> 500)"

definition body :: "response \<Rightarrow> pyval" where
  "body r = (case r of Response code b \<Rightarrow> b | ServerError \<Rightarrow> PNone)"

definition lookup :: "string \<Rightarrow> pyval \<Rightarrow> pyval" where
  "lookup k v =
     (case v of
        PDict entries \<Rightarrow> (case map_of entries k of None \<Rightarrow> PNone | Some x \<Rightarrow> x)
      | _ \<Rightarrow> PNone)"


text \<open>A float that is zero, negative or minus infinity.\<close>

definition not_positive :: "float64 \<Rightarrow> bool" where
  "not_positive x =
     (case x of Finite f \<Rightarrow> f \<le> 0 | PlusInfinity \<Rightarrow> False | MinusInfinity \<Rightarrow> True)"

subsection \<open>Example data\<close>

text \<open>
  A database with no rows, a Tier 1 creation request, a status update whose body has
  only the status key, the database after the request was created, and the database
  after it was also reported successful one second later. Times are microseconds; 63839664000000000 is
  2024-01-01T00:00:00.
\<close>

definition empty_db :: db where
  "empty_db =
     \<lparr>gateways = [], integrations = [], payment_transactions = [],
      payment_transaction_seq = 1, tier1_transactions = [], tier1_transaction_seq = 1\<rparr>"

definition mpesa_request :: tier1_create_request where
  "mpesa_request =
     \<lparr>tc_platform = Val ''mpesa'', tc_platform_integration_id = Val ''mpesa_1'',
      tc_external_transaction_id = Absent, tc_reference = Val ''abc'', tc_amount = Val 50000,
      tc_currency = Val ''KES'', tc_payment_method = Val ''Mobile Money'',
      tc_country_code = Val ''KE''\<rparr>"

definition status_only :: "string \<Rightarrow> status_update" where
  "status_only s =
     \<lparr>su_status = Val s, su_platform_status = Absent, su_external_transaction_id = Absent,
      su_failure_reason = Absent, su_platform_fee = Absent, su_gateway_fee = Absent,
      su_total_fees = Absent, su_net_amount = Absent, su_platform_response_data = None,
      su_platform_callback_data = None\<rparr>"



text \<open>
  A database with one gateway and one integration, and a request for 500.00 KES through
  that integration with the reference 'abc'.
\<close>

definition framework_db :: db where
  "framework_db =
     \<lparr>gateways = [\<lparr>gw_gateway_id = ''m1'', gw_country_code = ''KEN''\<rparr>],
      integrations = [\<lparr>in_integration_id = ''int_m1_7_0a1b2c3d'', in_gateway_id = ''m1''\<rparr>],
      payment_transactions = [], payment_transaction_seq = 1,
      tier1_transactions = [], tier1_transaction_seq = 1\<rparr>"

definition payment_request :: create_request where
  "payment_request =
     \<lparr>cr_integration_id = Val ''int_m1_7_0a1b2c3d'', cr_amount = Val (JReal 500),
      cr_currency = Val ''kes'', cr_payment_method = Val ''mobile_money'',
      cr_reference = Val ''abc'', cr_country_code = Absent\<rparr>"


section \<open>Properties of the status update\<close>

lemma find_map_replace:
  "find P xs = Some tr \<Longrightarrow> P u \<Longrightarrow>
   find P (map (\<lambda>t. if key t = key tr then u else t) xs) = Some u"
  by (induction xs) (auto split: if_splits)

lemma find_transaction_id:
  "find (\<lambda>t. t1_transaction_id t = transaction_id) rows = Some tr \<Longrightarrow>
   t1_transaction_id tr = transaction_id"
  by (auto dest: find_Some_iff[THEN iffD1])

lemma set_status_twice: "set_status (set_status tr s now) s now' = set_status tr s now"
  by (auto simp: set_status_def Let_def split: option.splits)

lemma set_field_twice: "set_field f (set_field f old) = set_field f old"
  by (cases f) (simp_all add: set_field_def)

lemma set_dumped_twice: "set_dumped f (set_dumped f old) = set_dumped f old"
  by (cases f) (simp_all add: set_dumped_def)

lemma set_status_update_other_fields:
  "set_status (update_other_fields data now2 tr) s now =
   update_other_fields data now2 (set_status tr s now)"
  by (simp add: set_status_def update_other_fields_def Let_def split: option.splits)

lemma update_other_fields_twice:
  "update_other_fields data now2' (update_other_fields data now2 tr) =
   update_other_fields data now2' tr"
  by (simp add: update_other_fields_def set_field_twice set_dumped_twice)

lemma update_other_fields_updated_at:
  "(update_other_fields data now2 tr)\<lparr>t1_updated_at := Some now2'\<rparr> =
   update_other_fields data now2' tr"
  by (simp add: update_other_fields_def)

lemma apply_status_update_twice:
  "apply_status_update (apply_status_update tr data now now2) data now' now2' =
   (apply_status_update tr data now now2)\<lparr>t1_updated_at := Some now2'\<rparr>"
  by (simp add: apply_status_update_def set_status_update_other_fields set_status_twice
        update_other_fields_twice update_other_fields_updated_at)

lemma apply_status_update_id: "t1_id (apply_status_update tr data now now2) = t1_id tr"
  by (simp add: apply_status_update_def update_other_fields_def set_status_def Let_def
        split: option.splits)

lemma apply_status_update_transaction_id:
  "t1_transaction_id (apply_status_update tr data now now2) = t1_transaction_id tr"
  by (simp add: apply_status_update_def update_other_fields_def set_status_def Let_def
        split: option.splits)













text \<open>
  C3 (as the code has it). A status update delivered a second time right after itself,
  at any later clock readings, leaves every column of every row as the first delivery
  left it, except updated_at.
\<close>

theorem redelivery_changes_only_updated_at:
  "map (\<lambda>t. t\<lparr>t1_updated_at := None\<rparr>)
     (tier1_transactions
        (snd (update_transaction_status
                (snd (update_transaction_status d transaction_id data now now2))
                transaction_id data now' now2')))
   = map (\<lambda>t. t\<lparr>t1_updated_at := None\<rparr>)
       (tier1_transactions (snd (update_transaction_status d transaction_id data now now2)))"
proof (cases "find (\<lambda>t. t1_transaction_id t = transaction_id) (tier1_transactions d)")
  case None
  then show ?thesis by (simp add: update_transaction_status_def)
next
  case (Some tr)
  let ?u = "apply_status_update tr data now now2"
  let ?d1 = "snd (update_transaction_status d transaction_id data now now2)"
  have rows1: "tier1_transactions ?d1 =
      map (\<lambda>t. if t1_id t = t1_id tr then ?u else t) (tier1_transactions d)"
    using Some by (simp add: update_transaction_status_def Let_def)
  have "t1_transaction_id ?u = transaction_id"
    by (simp add: apply_status_update_transaction_id find_transaction_id [OF Some])
  with Some have found: "find (\<lambda>t. t1_transaction_id t = transaction_id) (tier1_transactions ?d1)
      = Some ?u"
    unfolding rows1 by (rule find_map_replace)
  have rows2: "tier1_transactions
        (snd (update_transaction_status ?d1 transaction_id data now' now2'))
      = map (\<lambda>t. if t1_id t = t1_id ?u then apply_status_update ?u data now' now2' else t)
          (tier1_transactions ?d1)"
    using found by (simp add: update_transaction_status_def Let_def)
  show ?thesis
    unfolding rows2 unfolding rows1
    by (simp add: apply_status_update_twice apply_status_update_id)
qed

text \<open>
  Against C3 as stated: the event 'Success' is delivered, then 'Failed', then 'Success'
  a second time. The second delivery of 'Success' is applied again and moves the
  transaction from 'Failed' back to 'Success'.
\<close>

theorem exactly_once_callback_counterexample:
  "map t1_status
     (tier1_transactions
        (run empty_db
           [CreateTier1Transaction mpesa_request ''0123456789abcdef'' ''01234567''
              63839664000000000 63839664000000001 63839664000000002,
            UpdateTransactionStatus ''tier1_0123456789abcdef'' (status_only ''Success'')
              63839664001000000 63839664001000003,
            UpdateTransactionStatus ''tier1_0123456789abcdef'' (status_only ''Failed'')
              63839664002000000 63839664002000003]))
     = [Some ''Failed'']
   \<and> map t1_status
       (tier1_transactions
          (run empty_db
             [CreateTier1Transaction mpesa_request ''0123456789abcdef'' ''01234567''
                63839664000000000 63839664000000001 63839664000000002,
              UpdateTransactionStatus ''tier1_0123456789abcdef'' (status_only ''Success'')
                63839664001000000 63839664001000003,
              UpdateTransactionStatus ''tier1_0123456789abcdef'' (status_only ''Failed'')
                63839664002000000 63839664002000003,
              UpdateTransactionStatus ''tier1_0123456789abcdef'' (status_only ''Success'')
                63839664003000000 63839664003000003]))
     = [Some ''Success'']"
  by code_simp

section \<open>Properties of the rounding to a float\<close>

lemma round_half_even_nonpos: "q \<le> 0 \<Longrightarrow> round_half_even q \<le> 0"
proof -
  assume q: "q \<le> 0"
  have f: "\<lfloor>q\<rfloor> \<le> 0" using q by (simp add: floor_le_zero)
  show ?thesis
  proof (cases "\<lfloor>q\<rfloor> = 0")
    case True
    then have "0 \<le> q" by (metis of_int_0 of_int_floor_le)
    with q have "q = 0" by simp
    then show ?thesis by (simp add: round_half_even_def)
  next
    case False
    with f have "\<lfloor>q\<rfloor> + 1 \<le> 0" by linarith
    with f show ?thesis by (auto simp: round_half_even_def Let_def)
  qed
qed

lemma py_float_nonpos: "q \<le> 0 \<Longrightarrow> py_float q \<le> 0"
proof -
  assume q: "q \<le> 0"
  show ?thesis
  proof (cases "q = 0")
    case True
    then show ?thesis by (simp add: py_float_def)
  next
    case False
    define u where "u = (2::rat) powi (max (binary_exponent q) (- 1022) - 52)"
    have u: "0 < u" by (simp add: u_def)
    have "q / u \<le> 0" using q u by (simp add: divide_nonpos_pos)
    then have "round_half_even (q / u) \<le> 0" by (rule round_half_even_nonpos)
    then have "of_int (round_half_even (q / u)) * u \<le> 0"
      using u by (simp add: mult_le_0_iff)
    then show ?thesis using False by (simp add: py_float_def Let_def u_def)
  qed
qed




lemma float_of_rat_not_positive: "q \<le> 0 \<Longrightarrow> not_positive (float_of_rat q)"
  using py_float_nonpos [of q] by (simp add: float_of_rat_def not_positive_def Let_def)

lemma to_float_not_positive:
  "json_value a \<le> 0 \<Longrightarrow> to_float a = Some x \<Longrightarrow> not_positive x"
  using float_of_rat_not_positive [of "json_value a"]
  by (auto simp: to_float_def json_value_def split: json_number.splits float64.splits)




section \<open>Properties of transaction creation\<close>

lemma create_transaction_created:
  assumes "status_code (fst (create_transaction d data uuid12 t_initiated t_created)) = 201"
  shows "\<exists>tr. create_transaction d data uuid12 t_initiated t_created =
           (Response 201
              (PDict [(''success'', PBool True),
                      (''message'', PStr ''Transaction created successfully''),
                      (''data'', to_dict tr)]),
            d\<lparr>payment_transactions := payment_transactions d @ [tr],
              payment_transaction_seq := payment_transaction_seq d + 1\<rparr>)
         \<and> pt_id tr = payment_transaction_seq d
         \<and> pt_transaction_id tr \<notin> set (map pt_transaction_id (payment_transactions d))
         \<and> cr_reference data = Val (pt_reference tr)
         \<and> Option.bind (get (cr_amount data)) to_float = Some (pt_amount tr)
         \<and> pt_status tr = Some ''Pending''"
  using assms
  by (auto simp: create_transaction_def status_code_def get_def Let_def
           split: option.splits prod.splits if_splits jfield.splits)


lemma create_transaction_accepted_again:
  assumes "status_code (fst (create_transaction d data u ti tc)) = 201"
    and "status_code (fst (create_transaction d data u' ti' tc')) = 201"
    and "u \<noteq> u'"
  shows "status_code (fst (create_transaction (snd (create_transaction d data u ti tc))
                             data u' ti' tc')) = 201"
  using assms
  by (auto simp: create_transaction_def status_code_def get_def Let_def
           split: option.splits prod.splits if_splits jfield.splits)

text \<open>
  C1 (as the code has it). \<^verbatim>\<open>create_transaction\<close> never looks a reference up. Requests
  with identical arguments, each of which the handler accepts on the database as it is
  (the generated transaction ids being distinct, as the uuids are), are all served with
  a new row: N requests add N rows with the same reference and N distinct transaction
  ids, none of them an id of a row that existed before.
\<close>

theorem create_transaction_retries:
  assumes "distinct (map fst envs)"
    and "list_all (\<lambda>(u, ti, tc). status_code (fst (create_transaction d data u ti tc)) = 201)
           envs"
  shows "\<exists>new. payment_transactions
                 (run d (map (\<lambda>(u, ti, tc). CreateTransaction data u ti tc) envs))
               = payment_transactions d @ new
             \<and> length new = length envs
             \<and> list_all (\<lambda>tr. cr_reference data = Val (pt_reference tr)) new
             \<and> distinct (map pt_transaction_id new)
             \<and> set (map pt_transaction_id new)
                 \<inter> set (map pt_transaction_id (payment_transactions d)) = {}"
  using assms
proof (induction envs arbitrary: d)
  case Nil
  then show ?case by simp
next
  case (Cons e envs)
  obtain u ti tc where e: "e = (u, ti, tc)" by (cases e)
  let ?d1 = "snd (create_transaction d data u ti tc)"
  from Cons.prems(2) have acc: "status_code (fst (create_transaction d data u ti tc)) = 201"
    by (simp add: e)
  from create_transaction_created [OF acc] obtain tr where
    tr: "payment_transactions ?d1 = payment_transactions d @ [tr]"
      "pt_transaction_id tr \<notin> set (map pt_transaction_id (payment_transactions d))"
      "cr_reference data = Val (pt_reference tr)"
    by auto
  have "list_all (\<lambda>(u', ti', tc').
            status_code (fst (create_transaction ?d1 data u' ti' tc')) = 201) envs"
    unfolding list_all_iff
  proof (clarify)
    fix u' ti' tc'
    assume m: "(u', ti', tc') \<in> set envs"
    then have "u' \<in> fst ` set envs" by force
    with Cons.prems(1) have "u \<noteq> u'" by (auto simp: e)
    moreover from m Cons.prems(2)
    have "status_code (fst (create_transaction d data u' ti' tc')) = 201"
      by (auto simp: e list_all_iff)
    ultimately show "status_code (fst (create_transaction ?d1 data u' ti' tc')) = 201"
      by (rule create_transaction_accepted_again [OF acc, rotated])
  qed
  moreover have "distinct (map fst envs)" using Cons.prems(1) by simp
  ultimately obtain new where new:
    "payment_transactions (run ?d1 (map (\<lambda>(u, ti, tc). CreateTransaction data u ti tc) envs))
       = payment_transactions ?d1 @ new"
    "length new = length envs"
    "list_all (\<lambda>tr. cr_reference data = Val (pt_reference tr)) new"
    "distinct (map pt_transaction_id new)"
    "set (map pt_transaction_id new) \<inter> set (map pt_transaction_id (payment_transactions ?d1)) = {}"
    using Cons.IH [of ?d1] by blast
  show ?case
    apply (rule exI [of _ "tr # new"])
    using new tr by (auto simp: e)
qed

text \<open>The theorem at two requests with the reference 'abc'.\<close>

theorem create_transaction_retries_witness:
  "distinct (map fst [(''0123456789ab'', 63839664000000000, 63839664000000001),
                      (''ba9876543210'', 63839664005000000 :: int, 63839664005000001 :: int)])
   \<and> list_all (\<lambda>(u, ti, tc).
                 status_code (fst (create_transaction framework_db payment_request u ti tc)) = 201)
       [(''0123456789ab'', 63839664000000000, 63839664000000001),
        (''ba9876543210'', 63839664005000000, 63839664005000001)]
   \<and> (\<exists>new. payment_transactions
               (run framework_db
                  (map (\<lambda>(u, ti, tc). CreateTransaction payment_request u ti tc)
                     [(''0123456789ab'', 63839664000000000, 63839664000000001),
                      (''ba9876543210'', 63839664005000000, 63839664005000001)]))
             = payment_transactions framework_db @ new
           \<and> length new = length [(''0123456789ab'', 63839664000000000 :: int, 63839664000000001 :: int),
                                   (''ba9876543210'', 63839664005000000, 63839664005000001)]
           \<and> list_all (\<lambda>tr. cr_reference payment_request = Val (pt_reference tr)) new
           \<and> distinct (map pt_transaction_id new)
           \<and> set (map pt_transaction_id new)
               \<inter> set (map pt_transaction_id (payment_transactions framework_db)) = {})"
proof -
  have h1: "distinct (map fst [(''0123456789ab'', 63839664000000000, 63839664000000001),
                      (''ba9876543210'', 63839664005000000 :: int, 63839664005000001 :: int)])"
    by simp
  have h2: "list_all (\<lambda>(u, ti, tc).
                 status_code (fst (create_transaction framework_db payment_request u ti tc)) = 201)
       [(''0123456789ab'', 63839664000000000, 63839664000000001),
        (''ba9876543210'', 63839664005000000, 63839664005000001)]"
    by code_simp
  show ?thesis
    using h1 h2 create_transaction_retries [OF h1 h2] by blast
qed

text \<open>
  Against C1 as stated: the same request twice gives two rows with the reference 'abc',
  and the two callers receive different transaction ids.
\<close>

theorem idempotent_creation_counterexample:
  "map pt_reference
     (payment_transactions
        (run framework_db
           [CreateTransaction payment_request ''0123456789ab''
              63839664000000000 63839664000000001,
            CreateTransaction payment_request ''ba9876543210''
              63839664005000000 63839664005000001]))
     = [''abc'', ''abc'']
   \<and> lookup ''transaction_id''
       (lookup ''data''
          (body (fst (create_transaction framework_db payment_request ''0123456789ab''
                        63839664000000000 63839664000000001))))
     = PStr ''txn_m1_0123456789ab''
   \<and> lookup ''transaction_id''
       (lookup ''data''
          (body (fst (create_transaction
                        (snd (create_transaction framework_db payment_request ''0123456789ab''
                                63839664000000000 63839664000000001))
                        payment_request ''ba9876543210''
                        63839664005000000 63839664005000001))))
     = PStr ''txn_m1_ba9876543210''"
  by code_simp

lemma create_tier1_transaction_created:
  assumes "status_code (fst (create_tier1_transaction d data uuid16 uuid8 ti tc tu)) = 201"
  shows "\<exists>tr. create_tier1_transaction d data uuid16 uuid8 ti tc tu =
           (Response 201
              (PDict [(''message'', PStr ''Tier 1 transaction created successfully''),
                      (''transaction'', tier1_to_dict tr)]),
            d\<lparr>tier1_transactions := tier1_transactions d @ [tr],
              tier1_transaction_seq := tier1_transaction_seq d + 1\<rparr>)
         \<and> t1_id tr = tier1_transaction_seq d
         \<and> t1_transaction_id tr \<notin> set (map t1_transaction_id (tier1_transactions d))
         \<and> tc_amount data = Val (t1_amount tr)
         \<and> t1_status tr = Some ''Pending''"
  using assms
  by (auto simp: create_tier1_transaction_def status_code_def get_def Let_def
           split: option.splits prod.splits if_splits jfield.splits)

text \<open>
  C4 (as the code has it). A transaction that either creation route inserts has the
  status 'Pending', in the row and in the response; the code has no state 'Created'.
\<close>

theorem created_transactions_are_pending:
  "(status_code (fst (create_transaction d data uuid12 ti tc)) = 201 \<longrightarrow>
      (\<exists>tr. payment_transactions (snd (create_transaction d data uuid12 ti tc))
               = payment_transactions d @ [tr]
           \<and> pt_status tr = Some ''Pending''
           \<and> lookup ''status'' (lookup ''data'' (body (fst (create_transaction d data uuid12 ti tc))))
               = PStr ''Pending''))
   \<and> (status_code (fst (create_tier1_transaction d1 data1 uuid16 uuid8 ti1 tc1 tu1)) = 201 \<longrightarrow>
      (\<exists>tr. tier1_transactions (snd (create_tier1_transaction d1 data1 uuid16 uuid8 ti1 tc1 tu1))
               = tier1_transactions d1 @ [tr]
           \<and> t1_status tr = Some ''Pending''
           \<and> lookup ''status''
                (lookup ''transaction''
                   (body (fst (create_tier1_transaction d1 data1 uuid16 uuid8 ti1 tc1 tu1))))
               = PStr ''Pending''))"
proof (intro conjI impI)
  assume "status_code (fst (create_transaction d data uuid12 ti tc)) = 201"
  from create_transaction_created [OF this] obtain tr where
    "create_transaction d data uuid12 ti tc =
           (Response 201
              (PDict [(''success'', PBool True),
                      (''message'', PStr ''Transaction created successfully''),
                      (''data'', to_dict tr)]),
            d\<lparr>payment_transactions := payment_transactions d @ [tr],
              payment_transaction_seq := payment_transaction_seq d + 1\<rparr>)"
    "pt_status tr = Some ''Pending''"
    by blast
  then show "\<exists>tr. payment_transactions (snd (create_transaction d data uuid12 ti tc))
               = payment_transactions d @ [tr]
           \<and> pt_status tr = Some ''Pending''
           \<and> lookup ''status'' (lookup ''data'' (body (fst (create_transaction d data uuid12 ti tc))))
               = PStr ''Pending''"
    by (simp add: lookup_def body_def to_dict_def opt_str_def)
next
  assume "status_code (fst (create_tier1_transaction d1 data1 uuid16 uuid8 ti1 tc1 tu1)) = 201"
  from create_tier1_transaction_created [OF this] obtain tr where
    "create_tier1_transaction d1 data1 uuid16 uuid8 ti1 tc1 tu1 =
           (Response 201
              (PDict [(''message'', PStr ''Tier 1 transaction created successfully''),
                      (''transaction'', tier1_to_dict tr)]),
            d1\<lparr>tier1_transactions := tier1_transactions d1 @ [tr],
              tier1_transaction_seq := tier1_transaction_seq d1 + 1\<rparr>)"
    "t1_status tr = Some ''Pending''"
    by blast
  then show "\<exists>tr. tier1_transactions (snd (create_tier1_transaction d1 data1 uuid16 uuid8 ti1 tc1 tu1))
               = tier1_transactions d1 @ [tr]
           \<and> t1_status tr = Some ''Pending''
           \<and> lookup ''status''
                (lookup ''transaction''
                   (body (fst (create_tier1_transaction d1 data1 uuid16 uuid8 ti1 tc1 tu1))))
               = PStr ''Pending''"
    by (simp add: lookup_def body_def tier1_to_dict_def opt_str_def)
qed

text \<open>
  The theorem at the two example requests, both of which are accepted.
\<close>

theorem created_transactions_are_pending_witness:
  "status_code (fst (create_transaction framework_db payment_request ''0123456789ab''
                       63839664000000000 63839664000000001)) = 201
   \<and> status_code (fst (create_tier1_transaction empty_db mpesa_request ''0123456789abcdef''
                         ''01234567'' 63839664000000000 63839664000000001 63839664000000002))
       = 201
   \<and> (\<exists>tr. payment_transactions
              (snd (create_transaction framework_db payment_request ''0123456789ab''
                      63839664000000000 63839664000000001))
            = payment_transactions framework_db @ [tr]
          \<and> pt_status tr = Some ''Pending'')
   \<and> (\<exists>tr. tier1_transactions
              (snd (create_tier1_transaction empty_db mpesa_request ''0123456789abcdef''
                      ''01234567'' 63839664000000000 63839664000000001 63839664000000002))
            = tier1_transactions empty_db @ [tr]
          \<and> t1_status tr = Some ''Pending'')"
proof -
  have h1: "status_code (fst (create_transaction framework_db payment_request ''0123456789ab''
                       63839664000000000 63839664000000001)) = 201"
    by code_simp
  have h2: "status_code (fst (create_tier1_transaction empty_db mpesa_request
              ''0123456789abcdef'' ''01234567''
              63839664000000000 63839664000000001 63839664000000002)) = 201"
    by code_simp
  show ?thesis
    using h1 h2
      created_transactions_are_pending
        [of framework_db payment_request "''0123456789ab''" 63839664000000000
            63839664000000001 empty_db mpesa_request "''0123456789abcdef''" "''01234567''"
            63839664000000000 63839664000000001 63839664000000002]
    by blast
qed

text \<open>
  Against C4 as stated: the row a creation request inserts is in 'Pending', not in
  'Created'.
\<close>

theorem initial_state_counterexample:
  "map pt_status
     (payment_transactions
        (snd (create_transaction framework_db payment_request ''0123456789ab''
                63839664000000000 63839664000000001)))
     = [Some ''Pending'']
   \<and> map t1_status
       (tier1_transactions
          (snd (create_tier1_transaction empty_db mpesa_request ''0123456789abcdef''
                  ''01234567'' 63839664000000000 63839664000000001 63839664000000002)))
     = [Some ''Pending'']
   \<and> map pt_status
       (payment_transactions
          (snd (create_transaction framework_db payment_request ''0123456789ab''
                  63839664000000000 63839664000000001)))
     \<noteq> [Some ''Created'']"
  by code_simp

text \<open>
  C6 (as the code has it). \<^verbatim>\<open>create_transaction\<close> does not look at the sign of the
  amount: when a request is accepted, the same request with a zero or negative amount in
  its place, one that \<^verbatim>\<open>float\<close> converts, is accepted as well, and the row inserted holds
  the zero or negative float of that amount.
\<close>

theorem create_transaction_amount_unchecked:
  assumes "status_code (fst (create_transaction d (data\<lparr>cr_amount := Val a\<rparr>) uuid12 ti tc))
           = 201"
    and "json_value b \<le> 0"
    and "to_float b = Some x"
  shows "status_code (fst (create_transaction d (data\<lparr>cr_amount := Val b\<rparr>) uuid12 ti tc))
           = 201
       \<and> map pt_amount
           (payment_transactions
              (snd (create_transaction d (data\<lparr>cr_amount := Val b\<rparr>) uuid12 ti tc)))
         = map pt_amount (payment_transactions d) @ [x]
       \<and> not_positive x"
proof -
  have "not_positive x"
    using assms(2, 3) by (rule to_float_not_positive)
  moreover have
    "status_code (fst (create_transaction d (data\<lparr>cr_amount := Val b\<rparr>) uuid12 ti tc)) = 201
     \<and> map pt_amount
         (payment_transactions
            (snd (create_transaction d (data\<lparr>cr_amount := Val b\<rparr>) uuid12 ti tc)))
       = map pt_amount (payment_transactions d) @ [x]"
    using assms(1, 3)
    by (auto simp: create_transaction_def status_code_def get_def present_def Let_def
             split: option.splits prod.splits if_splits jfield.splits Option.bind_splits)
  ultimately show ?thesis by simp
qed

text \<open>The theorem at the example request, with the amount -5.00 in place of 500.00.\<close>

theorem create_transaction_amount_unchecked_witness:
  "status_code (fst (create_transaction framework_db
                       (payment_request\<lparr>cr_amount := Val (JReal 500)\<rparr>)
                       ''0123456789ab'' 63839664000000000 63839664000000001)) = 201
   \<and> json_value (JReal (- 5)) \<le> 0
   \<and> to_float (JReal (- 5)) = Some (Finite (- 5))
   \<and> status_code (fst (create_transaction framework_db
                         (payment_request\<lparr>cr_amount := Val (JReal (- 5))\<rparr>)
                         ''0123456789ab'' 63839664000000000 63839664000000001)) = 201
   \<and> map pt_amount
       (payment_transactions
          (snd (create_transaction framework_db
                  (payment_request\<lparr>cr_amount := Val (JReal (- 5))\<rparr>)
                  ''0123456789ab'' 63839664000000000 63839664000000001)))
     = map pt_amount (payment_transactions framework_db) @ [Finite (- 5)]
   \<and> not_positive (Finite (- 5))"
proof -
  have h1: "status_code (fst (create_transaction framework_db
             (payment_request\<lparr>cr_amount := Val (JReal 500)\<rparr>)
             ''0123456789ab'' 63839664000000000 63839664000000001)) = 201"
    by code_simp
  have h2: "json_value (JReal (- 5)) \<le> 0"
    by (simp add: json_value_def)
  have h3: "to_float (JReal (- 5)) = Some (Finite (- 5))"
    by code_simp
  show ?thesis
    using h1 h2 h3 create_transaction_amount_unchecked [OF h1 h2 h3] by simp
qed

text \<open>
  Against C6 as stated: requests with the amounts -5.00 and 0 are answered 201 and leave
  a row with that amount.
\<close>

theorem positive_amount_counterexample:
  "status_code (fst (create_transaction framework_db
                       (payment_request\<lparr>cr_amount := Val (JReal (- 5))\<rparr>)
                       ''0123456789ab'' 63839664000000000 63839664000000001)) = 201
   \<and> map pt_amount
       (payment_transactions
          (snd (create_transaction framework_db
                  (payment_request\<lparr>cr_amount := Val (JReal (- 5))\<rparr>)
                  ''0123456789ab'' 63839664000000000 63839664000000001)))
     = [Finite (- 5)]
   \<and> map pt_amount
       (payment_transactions
          (snd (create_transaction framework_db (payment_request\<lparr>cr_amount := Val (JInt 0)\<rparr>)
                  ''0123456789ab'' 63839664000000000 63839664000000001)))
     = [Finite 0]"
  by code_simp




section \<open>Properties of the analytics\<close>








text \<open>
  C7. Neither analytics overview changes the database, whatever its arguments and
  whether it answers 200 or 500.
\<close>

theorem analytics_read_only:
  "snd (get_analytics_overview d days country_code gateway_id now) = d
   \<and> snd (tier1_get_analytics_overview d days1 now1) = d"
  by (simp add: get_analytics_overview_def tier1_get_analytics_overview_def Let_def
        split: option.splits)

section \<open>Rows are never removed\<close>

lemma create_transaction_rows:
  "prefix (payment_transactions d)
     (payment_transactions (snd (create_transaction d data uuid12 ti tc)))
   \<and> tier1_transactions (snd (create_transaction d data uuid12 ti tc)) = tier1_transactions d"
  by (auto simp: create_transaction_def Let_def
           split: option.splits prod.splits if_splits)

lemma create_tier1_transaction_rows:
  "payment_transactions (snd (create_tier1_transaction d data uuid16 uuid8 ti tc tu))
     = payment_transactions d
   \<and> prefix (map t1_id (tier1_transactions d))
       (map t1_id (tier1_transactions (snd (create_tier1_transaction d data uuid16 uuid8 ti tc tu))))"
  by (auto simp: create_tier1_transaction_def Let_def
           split: option.splits prod.splits if_splits)

lemma update_transaction_status_rows:
  "payment_transactions (snd (update_transaction_status d transaction_id data now now2))
     = payment_transactions d
   \<and> map t1_id (tier1_transactions (snd (update_transaction_status d transaction_id data now now2)))
     = map t1_id (tier1_transactions d)"
  by (auto simp: update_transaction_status_def Let_def apply_status_update_id
           split: option.splits)

lemma read_only_routes:
  "snd (get_analytics_overview d days country_code gateway_id now) = d"
  "snd (tier1_get_analytics_overview d days now) = d"
  "snd (get_tier1_transaction d transaction_id) = d"
  by (simp_all add: get_analytics_overview_def tier1_get_analytics_overview_def
        get_tier1_transaction_def Let_def split: option.splits)

lemma handle_rows:
  "prefix (payment_transactions d) (payment_transactions (snd (handle d operation)))
   \<and> prefix (map t1_id (tier1_transactions d))
       (map t1_id (tier1_transactions (snd (handle d operation))))"
proof (cases operation)
  case (CreateTransaction data uuid12 ti tc)
  then show ?thesis using create_transaction_rows [of d data uuid12 ti tc] by simp
next
  case (CreateTier1Transaction data uuid16 uuid8 ti tc tu)
  then show ?thesis
    using create_tier1_transaction_rows [of d data uuid16 uuid8 ti tc tu] by simp
next
  case (UpdateTransactionStatus transaction_id data now now2)
  then show ?thesis
    using update_transaction_status_rows [of d transaction_id data now now2] by simp
qed (simp_all add: read_only_routes)

text \<open>
  C8. After any sequence of requests to the modelled routes, every row of
  payment_transactions is still there, unchanged and at its place, and every row of
  tier1_transactions, identified by its primary key, is still there at its place: rows
  are appended and updated, never removed.
\<close>

theorem transactions_never_deleted:
  "prefix (payment_transactions d) (payment_transactions (run d operations))
   \<and> prefix (map t1_id (tier1_transactions d))
       (map t1_id (tier1_transactions (run d operations)))"
proof (induction operations arbitrary: d)
  case Nil
  show ?case by simp
next
  case (Cons operation operations)
  from handle_rows [of d operation] Cons.IH [of "snd (handle d operation)"]
  show ?case by (auto intro: prefix_order.trans)
qed

end
